theory Spec2Isabelle
  imports Complex_Main "HOL-Library.Sublist"
begin

section \<open>Escapade Locale: the search handler of App.tsx and the typed path of geminiService.ts\<close>

text \<open>
  Strings of the program are modelled as \<^typ>\<open>string\<close>, holding the UTF-8 bytes of the
  text: the accented letters of the French literals are two bytes each, written with
  their byte codes. Substring containment does not depend on the encoding chosen, since
  user text and literals are encoded the same way.
\<close>

subsection \<open>Data of the external capability (types of the generative SDK)\<close>

text \<open>
  The response type is declared by the SDK, not by this repository. Its shape is taken
  from the interface of the specification:
  \<^verbatim>\<open>ExternalResponse{ text: string?, candidates: [{ groundingMetadata:
  { groundingChunks: [RawGroundingChunk] }? }]? }\<close>, every optional link being an
  \<^typ>\<open>'a option\<close>. A chunk carries an optional \<^verbatim>\<open>maps\<close> payload and an optional
  \<^verbatim>\<open>web\<close> payload, each with an optional uri and an optional title.
\<close>

record payload =
  uri :: "string option"
  title :: "string option"

record chunk =
  chunk_maps :: "payload option"
  chunk_web :: "payload option"

record grounding_metadata =
  gm_groundingChunks :: "chunk list option"

record candidate =
  groundingMetadata :: "grounding_metadata option"

record response =
  resp_text :: "string option"
  candidates :: "candidate list option"

datatype fault = Fault string

subsection \<open>The request built by handleSearch\<close>

record latlng =
  latitude :: real
  longitude :: real

datatype tool = GoogleMaps | GoogleSearch

record request =
  model :: string
  contents :: string
  tools :: "tool list"
  latLng :: "latlng option"

subsection \<open>Component state of App (the useState cells)\<close>

record coords =
  lat :: real
  lng :: real

record app_state =
  location :: string
  startDate :: string
  endDate :: string
  radius :: nat
  loading :: bool
  result :: "string option"
  groundingChunks :: "chunk list"
  userCoords :: "coords option"

subsection \<open>Template literal of the prompt (App.tsx, lines 66 to 78)\<close>

text \<open>
  \<^verbatim>\<open>${radius}\<close> converts a number to its decimal text. The radius comes from a range input
  (5 to 100 in steps of 5, initially 30), a non-negative integer, for which the
  conversion is the plain decimal numeral computed here.
\<close>

fun numToString :: "nat \<Rightarrow> string" where
  "numToString n =
     (if n < 10 then [char_of (48 + n)]
      else numToString (n div 10) @ [char_of (48 + n mod 10)])"

declare numToString.simps [simp del]

definition placeholder :: string where
  "placeholder = ''ma position actuelle''"

text \<open>\<^verbatim>\<open>location || 'ma position actuelle'\<close>: the empty string is the only falsy string.\<close>

definition destination :: "string \<Rightarrow> string" where
  "destination loc = (if loc = [] then placeholder else loc)"

definition seg0 :: string where
  "seg0 = ''Je planifie un voyage '' @ [CHR 0xC3, CHR 0xA0] @ '' ''"

definition seg1 :: string where
  "seg1 = '' du ''"

definition seg2 :: string where
  "seg2 = '' au ''"

definition seg3 :: string where
  "seg3 = ''.'' @ [CHR 0x0A] @
    ''      Je souhaite d'' @ [CHR 0xC3, CHR 0xA9] @ ''couvrir les activit'' @ [CHR 0xC3, CHR 0xA9] @ ''s suivantes dans un rayon de ''"

definition seg4 :: string where
  "seg4 = ''km :'' @ [CHR 0x0A] @
    ''      1. March'' @ [CHR 0xC3, CHR 0xA9] @ ''s (locaux, artisanaux)'' @ [CHR 0x0A] @
    ''      2. Brocantes et vide-greniers (consulte sp'' @ [CHR 0xC3, CHR 0xA9] @ ''cifiquement vide-greniers.org pour cette zone et ces dates)'' @ [CHR 0x0A] @
    ''      3. '' @ [CHR 0xC3, CHR 0x89] @ ''v'' @ [CHR 0xC3, CHR 0xA9] @ ''nements locaux et culturels (consulte les agendas municipaux et les sites des mairies de la zone)'' @ [CHR 0x0A] @
    ''      4. Escape games'' @ [CHR 0x0A] @
    ''      5. F'' @ [CHR 0xC3, CHR 0xAA] @ ''tes de village et festivals'' @ [CHR 0x0A] @
    ''      6. Recycleries et ressourceries'' @ [CHR 0x0A] @
    [CHR 0x0A] @
    ''      Organise ta r'' @ [CHR 0xC3, CHR 0xA9] @ ''ponse jour par jour du ''"

definition seg5 :: string where
  "seg5 = '' au ''"

definition seg6 :: string where
  "seg6 = ''. '' @ [CHR 0x0A] @
    ''      Pour chaque jour, liste les '' @ [CHR 0xC3, CHR 0xA9] @ ''v'' @ [CHR 0xC3, CHR 0xA9] @ ''nements sp'' @ [CHR 0xC3, CHR 0xA9] @ ''cifiques ou les lieux ouverts qui correspondent '' @ [CHR 0xC3, CHR 0xA0] @ '' mes crit'' @ [CHR 0xC3, CHR 0xA8] @ ''res.'' @ [CHR 0x0A] @
    ''      Sois pr'' @ [CHR 0xC3, CHR 0xA9] @ ''cis sur les lieux, les horaires et cite tes sources si possible (liens vers vide-greniers.org ou sites de mairies).'' @ [CHR 0x0A] @
    ''      Utilise des titres clairs pour chaque jour.''"

definition buildPrompt :: "app_state \<Rightarrow> string" where
  "buildPrompt st =
     seg0 @ destination (location st) @ seg1 @ startDate st @ seg2 @ endDate st @
     seg3 @ numToString (radius st) @ seg4 @ startDate st @ seg5 @ endDate st @ seg6"

subsection \<open>Request configuration (App.tsx, lines 80 to 94)\<close>

text \<open>
  \<^verbatim>\<open>userCoords ? {latitude: userCoords.lat, longitude: userCoords.lng} : undefined\<close>:
  the state cell holds an object or null, and every object is truthy.
\<close>

definition buildLatLng :: "coords option \<Rightarrow> latlng option" where
  "buildLatLng uc =
     (case uc of
        None \<Rightarrow> None
      | Some c \<Rightarrow> Some \<lparr>latitude = lat c, longitude = lng c\<rparr>)"

definition buildRequest :: "app_state \<Rightarrow> request" where
  "buildRequest st =
     \<lparr>model = ''gemini-2.5-flash'',
      contents = buildPrompt st,
      tools = [GoogleMaps, GoogleSearch],
      latLng = buildLatLng (userCoords st)\<rparr>"

subsection \<open>The generative client as a parameter\<close>

text \<open>
  The client is external. \<^verbatim>\<open>new GoogleGenAI(...)\<close> either throws or yields a client, and
  \<^verbatim>\<open>await ai.models.generateContent(...)\<close> either rejects with a fault or resolves to a
  response. Both behaviours are parameters of the model.
\<close>

record sdk =
  newGoogleGenAI :: "fault option"
  generateContent :: "request \<Rightarrow> fault + response"

subsection \<open>handleSearch (App.tsx, lines 57 to 107)\<close>

definition fallback :: string where
  "fallback = ''D'' @ [CHR 0xC3, CHR 0xA9] @ ''sol'' @ [CHR 0xC3, CHR 0xA9] @ '', je n'' @ [CHR 0x27] @ ''ai pas trouv'' @ [CHR 0xC3, CHR 0xA9] @ '' d'' @ [CHR 0x27] @ ''activit'' @ [CHR 0xC3, CHR 0xA9] @ ''s pour cette p'' @ [CHR 0xC3, CHR 0xA9] @ ''riode.''"

definition errorMessage :: string where
  "errorMessage = ''Une erreur est survenue lors de la recherche. Veuillez r'' @ [CHR 0xC3, CHR 0xA9] @ ''essayer.''"

text \<open>Lines 59 to 61, the synchronous part that runs before the first await.\<close>

definition handleSearch_begin :: "app_state \<Rightarrow> app_state" where
  "handleSearch_begin st = st\<lparr>loading := True, result := None, groundingChunks := []\<rparr>"

text \<open>
  Line 96, \<^verbatim>\<open>response.text || "..."\<close>: an absent text and the empty string are both
  falsy.
\<close>

definition resultText :: "response \<Rightarrow> string" where
  "resultText r =
     (case resp_text r of
        None \<Rightarrow> fallback
      | Some t \<Rightarrow> if t = [] then fallback else t)"

text \<open>
  Line 99, \<^verbatim>\<open>response.candidates?.[0]?.groundingMetadata?.groundingChunks || []\<close>:
  every absent link, and an empty candidate array, gives undefined and then the empty
  array. An array, even an empty one, is truthy and is kept.
\<close>

definition extractChunks :: "response \<Rightarrow> chunk list" where
  "extractChunks r =
     (case candidates r of
        None \<Rightarrow> []
      | Some [] \<Rightarrow> []
      | Some (c # _) \<Rightarrow>
          (case groundingMetadata c of
             None \<Rightarrow> []
           | Some gm \<Rightarrow>
               (case gm_groundingChunks gm of
                  None \<Rightarrow> []
                | Some chunks \<Rightarrow> chunks)))"

text \<open>
  Lines 64 to 94: what the try block has obtained when it passes the await, a fault
  (thrown by the constructor or by the call) or the response.
\<close>

definition attempt :: "sdk \<Rightarrow> app_state \<Rightarrow> fault + response" where
  "attempt env st =
     (case newGoogleGenAI env of
        Some f \<Rightarrow> Inl f
      | None \<Rightarrow> generateContent env (buildRequest st))"

text \<open>
  Lines 96 to 106: the rest of the try block on a response, the catch block on a
  fault, and the finally block in both cases.
\<close>

definition handleSearch_settle :: "fault + response \<Rightarrow> app_state \<Rightarrow> app_state" where
  "handleSearch_settle outcome st =
     (case outcome of
        Inr r \<Rightarrow>
          st\<lparr>result := Some (resultText r), groundingChunks := extractChunks r\<rparr>
      | Inl f \<Rightarrow> st\<lparr>result := Some errorMessage\<rparr>)
     \<lparr>loading := False\<rparr>"

definition handleSearch :: "sdk \<Rightarrow> app_state \<Rightarrow> app_state" where
  "handleSearch env st = handleSearch_settle (attempt env st) (handleSearch_begin st)"

subsection \<open>Rendering of the result section (App.tsx, lines 213 to 303)\<close>

datatype icon = MapPin | Search

record anchor =
  key :: nat
  href :: "string option"
  icon :: icon
  label :: "string option"

text \<open>
  The callback of \<^verbatim>\<open>groundingChunks.map\<close>: the \<^verbatim>\<open>maps\<close> payload is tested first, then
  the \<^verbatim>\<open>web\<close> payload, else the element is null. A payload is an object, hence truthy.
\<close>

definition renderChunk :: "chunk \<Rightarrow> nat \<Rightarrow> anchor option" where
  "renderChunk c idx =
     (case chunk_maps c of
        Some m \<Rightarrow> Some \<lparr>key = idx, href = uri m, icon = MapPin, label = title m\<rparr>
      | None \<Rightarrow>
          (case chunk_web c of
             Some w \<Rightarrow> Some \<lparr>key = idx, href = uri w, icon = Search, label = title w\<rparr>
           | None \<Rightarrow> None))"

fun mapChunksFrom :: "nat \<Rightarrow> chunk list \<Rightarrow> anchor option list" where
  "mapChunksFrom idx [] = []"
| "mapChunksFrom idx (c # cs) = renderChunk c idx # mapChunksFrom (Suc idx) cs"

text \<open>A null child renders nothing: the links on the page are the non-null elements.\<close>

fun dropNulls :: "'a option list \<Rightarrow> 'a list" where
  "dropNulls [] = []"
| "dropNulls (None # xs) = dropNulls xs"
| "dropNulls (Some x # xs) = x # dropNulls xs"

definition sourceLinks :: "chunk list \<Rightarrow> anchor list" where
  "sourceLinks cs = dropNulls (mapChunksFrom 0 cs)"

text \<open>
  \<^verbatim>\<open>result ? programme : !loading && welcome\<close>, and inside the programme the sources
  block guarded by \<^verbatim>\<open>groundingChunks.length > 0\<close>. This is the child element that the
  component function returns for a state, not yet what is mounted on the page.
\<close>

datatype view =
  Programme string "anchor list option"
| Welcome
| Blank

definition render :: "app_state \<Rightarrow> view" where
  "render st =
     (case result st of
        Some (ch # t) \<Rightarrow>
          Programme (ch # t)
            (if length (groundingChunks st) > 0
             then Some (sourceLinks (groundingChunks st)) else None)
      | _ \<Rightarrow> if \<not> loading st then Welcome else Blank)"

text \<open>
  The child is wrapped in \<^verbatim>\<open><AnimatePresence mode="wait">\<close> (line 213), a component of
  the external animation library, and the programme element carries an
  \<^verbatim>\<open>exit\<close> prop (line 218); the welcome element has none. Neither element has a key.
  When a render returns no child where a programme is mounted, the library keeps the
  programme mounted, with the text and the links it was last rendered with, while its
  exit animation runs. When a render returns an element where one is mounted, the
  mounted element is updated in place, both being keyless elements of one type. An
  element without exit prop is removed at once.
  \<^verbatim>\<open>mountedAfter old new\<close> is what is mounted right after the render that replaces the
  child \<^verbatim>\<open>old\<close>, mounted with no exit running, by the child \<^verbatim>\<open>new\<close>.
\<close>

datatype mounted =
  Shown view
| Leaving string "anchor list option"

definition mountedAfter :: "view \<Rightarrow> view \<Rightarrow> mounted" where
  "mountedAfter old new =
     (case old of
        Programme t s \<Rightarrow>
          (case new of
             Blank \<Rightarrow> Leaving t s
           | _ \<Rightarrow> Shown new)
      | _ \<Rightarrow> Shown new)"

subsection \<open>The page as an event system\<close>

text \<open>
  The state cells are written by the event handlers of the form and by the
  continuation of a pending \<^verbatim>\<open>handleSearch\<close>. The initial values are those of the
  \<^verbatim>\<open>useState\<close> calls; the two dates are computed from the clock and are parameters.
\<close>

definition initialState :: "string \<Rightarrow> string \<Rightarrow> app_state" where
  "initialState today nextWeek =
     \<lparr>location = [], startDate = today, endDate = nextWeek, radius = 30,
      loading = False, result = None, groundingChunks = [], userCoords = None\<rparr>"

record page =
  app :: app_state
  inflight :: "(fault + response) list"

datatype event =
  Submit
| Settle nat
| SetLocation string
| SetStartDate string
| SetEndDate string
| SetRadius nat
| SetUserCoords coords

text \<open>
  \<^verbatim>\<open>Submit\<close> is a submission of the form. Its only submit button carries
  \<^verbatim>\<open>disabled={loading}\<close> (line 193), so while \<^verbatim>\<open>loading\<close> holds the browser delivers no
  submit event and the handler does not run. Otherwise lines 59 to 61 run; a throwing
  constructor reaches the catch and finally blocks within the same event, and a
  started call is recorded in \<^verbatim>\<open>inflight\<close> with the outcome it will settle with.
  \<^verbatim>\<open>Settle i\<close> resumes the pending handler number \<^verbatim>\<open>i\<close>.
\<close>

definition submit :: "sdk \<Rightarrow> page \<Rightarrow> page" where
  "submit env p =
     (if loading (app p) then p
      else
        (case newGoogleGenAI env of
           Some f \<Rightarrow> p\<lparr>app := handleSearch_settle (Inl f) (handleSearch_begin (app p))\<rparr>
         | None \<Rightarrow>
             p\<lparr>app := handleSearch_begin (app p),
               inflight := inflight p @ [generateContent env (buildRequest (app p))]\<rparr>))"

definition settle :: "nat \<Rightarrow> page \<Rightarrow> page" where
  "settle i p =
     (if i < length (inflight p)
      then p\<lparr>app := handleSearch_settle (inflight p ! i) (app p),
              inflight := take i (inflight p) @ drop (Suc i) (inflight p)\<rparr>
      else p)"

fun dispatch :: "sdk \<Rightarrow> event \<Rightarrow> page \<Rightarrow> page" where
  "dispatch env Submit p = submit env p"
| "dispatch env (Settle i) p = settle i p"
| "dispatch env (SetLocation v) p = p\<lparr>app := (app p)\<lparr>location := v\<rparr>\<rparr>"
| "dispatch env (SetStartDate v) p = p\<lparr>app := (app p)\<lparr>startDate := v\<rparr>\<rparr>"
| "dispatch env (SetEndDate v) p = p\<lparr>app := (app p)\<lparr>endDate := v\<rparr>\<rparr>"
| "dispatch env (SetRadius v) p = p\<lparr>app := (app p)\<lparr>radius := v\<rparr>\<rparr>"
| "dispatch env (SetUserCoords c) p = p\<lparr>app := (app p)\<lparr>userCoords := Some c\<rparr>\<rparr>"

fun run :: "sdk \<Rightarrow> event list \<Rightarrow> page \<Rightarrow> page" where
  "run env [] p = p"
| "run env (e # es) p = run env es (dispatch env e p)"

definition initialPage :: "string \<Rightarrow> string \<Rightarrow> page" where
  "initialPage today nextWeek = \<lparr>app = initialState today nextWeek, inflight = []\<rparr>"

subsection \<open>searchActivities (services/geminiService.ts, lines 22 to 55)\<close>

datatype activity_type = market | flea_market | escape_game | festival | recycling | other

record activity =
  act_id :: string
  act_name :: string
  act_type :: activity_type
  act_description :: string
  act_location :: string
  act_date :: "string option"
  act_link :: "string option"

text \<open>
  \<^verbatim>\<open>SearchParams.radius\<close> is any number, and \<^verbatim>\<open>${params.radius}\<close> prints it with the
  number conversion of the engine (\<^verbatim>\<open>2.5\<close>, \<^verbatim>\<open>-5\<close>, \<^verbatim>\<open>1e+21\<close>). Numbers are taken as
  reals here, and that conversion is a parameter, \<^verbatim>\<open>numberToString\<close>, of the prompt and
  of the function.
\<close>

record search_params =
  sp_location :: string
  sp_startDate :: string
  sp_endDate :: string
  sp_radius :: real
  sp_lat :: "real option"
  sp_lng :: "real option"

definition searchPrompt :: "(real \<Rightarrow> string) \<Rightarrow> search_params \<Rightarrow> string" where
  "searchPrompt numberToString params =
     ''Trouve des activit'' @ [CHR 0xC3, CHR 0xA9] @ ''s '' @ [CHR 0xC3, CHR 0xA0] @ '' faire '' @ [CHR 0xC3, CHR 0xA0] @ '' '' @
     sp_location params @
     '' et dans un rayon de '' @
     numberToString (sp_radius params) @
     ''km entre le '' @
     sp_startDate params @
     '' et le '' @
     sp_endDate params @
     ''.'' @ [CHR 0x0A] @
     ''  Je recherche sp'' @ [CHR 0xC3, CHR 0xA9] @ ''cifiquement :'' @ [CHR 0x0A] @
     ''  - Les march'' @ [CHR 0xC3, CHR 0xA9] @ ''s (march'' @ [CHR 0xC3, CHR 0xA9] @ ''s alimentaires, artisanaux)'' @ [CHR 0x0A] @
     ''  - Les brocantes et vide-greniers'' @ [CHR 0x0A] @
     ''  - Les escape games ouverts'' @ [CHR 0x0A] @
     ''  - Les f'' @ [CHR 0xC3, CHR 0xAA] @ ''tes de village et '' @ [CHR 0xC3, CHR 0xA9] @ ''v'' @ [CHR 0xC3, CHR 0xA9] @ ''nements locaux'' @ [CHR 0x0A] @
     ''  - Les recycleries et ressourceries'' @ [CHR 0x0A] @
     ''  '' @ [CHR 0x0A] @
     ''  Pour chaque activit'' @ [CHR 0xC3, CHR 0xA9] @ '', fournis le nom, le type, une courte description, le lieu pr'' @ [CHR 0xC3, CHR 0xA9] @ ''cis et si possible la date sp'' @ [CHR 0xC3, CHR 0xA9] @ ''cifique ou les jours d'' @ [CHR 0x27] @ ''ouverture.'' @ [CHR 0x0A] @
     ''  R'' @ [CHR 0xC3, CHR 0xA9] @ ''ponds sous forme de liste structur'' @ [CHR 0xC3, CHR 0xA9] @ ''e.''"

text \<open>
  \<^verbatim>\<open>params.lat && params.lng ? {...} : undefined\<close>: an absent number and the number
  zero are both falsy.
\<close>

definition searchLatLng :: "search_params \<Rightarrow> latlng option" where
  "searchLatLng params =
     (case (sp_lat params, sp_lng params) of
        (Some la, Some lo) \<Rightarrow>
          if la \<noteq> 0 \<and> lo \<noteq> 0 then Some \<lparr>latitude = la, longitude = lo\<rparr> else None
      | _ \<Rightarrow> None)"

definition searchRequest :: "(real \<Rightarrow> string) \<Rightarrow> search_params \<Rightarrow> request" where
  "searchRequest numberToString params =
     \<lparr>model = ''gemini-2.5-flash'',
      contents = searchPrompt numberToString params,
      tools = [GoogleMaps],
      latLng = searchLatLng params\<rparr>"

text \<open>
  The function has no try block: a throwing constructor or a rejected call rejects the
  returned promise (\<^term>\<open>Inl\<close>). After the await the response is not read and the empty
  array is returned.
\<close>

definition searchActivities ::
  "(real \<Rightarrow> string) \<Rightarrow> sdk \<Rightarrow> search_params \<Rightarrow> fault + activity list" where
  "searchActivities numberToString env params =
     (case newGoogleGenAI env of
        Some f \<Rightarrow> Inl f
      | None \<Rightarrow>
          (case generateContent env (searchRequest numberToString params) of
             Inl f \<Rightarrow> Inl f
           | Inr response \<Rightarrow> Inr []))"

subsection \<open>Invariant of the event system\<close>

text \<open>
  While \<^verbatim>\<open>loading\<close> holds exactly one call is pending and the result and the chunk
  list are cleared; otherwise no call is pending.
\<close>

definition pageInv :: "page \<Rightarrow> bool" where
  "pageInv p =
     (if loading (app p)
      then length (inflight p) = 1 \<and> result (app p) = None \<and> groundingChunks (app p) = []
      else inflight p = [])"

subsection \<open>Inputs named in the statements\<close>

text \<open>
  Three clients, one that resolves every call to a given response, one that rejects
  every call with a given fault and one whose constructor throws a given fault, and the
  chunk shapes the statements speak of: a chunk
  with only a place payload, one with only a web payload, one with neither, and a
  response whose first candidate carries a given chunk list.
\<close>

definition okSdk :: "response \<Rightarrow> sdk" where
  "okSdk r = \<lparr>newGoogleGenAI = None, generateContent = (\<lambda>_. Inr r)\<rparr>"

definition failingSdk :: "fault \<Rightarrow> sdk" where
  "failingSdk f = \<lparr>newGoogleGenAI = None, generateContent = (\<lambda>_. Inl f)\<rparr>"

definition throwingSdk :: "fault \<Rightarrow> sdk" where
  "throwingSdk f = \<lparr>newGoogleGenAI = Some f, generateContent = (\<lambda>_. Inl f)\<rparr>"

definition placeChunk :: "payload \<Rightarrow> chunk" where
  "placeChunk p = \<lparr>chunk_maps = Some p, chunk_web = None\<rparr>"

definition webChunk :: "payload \<Rightarrow> chunk" where
  "webChunk p = \<lparr>chunk_maps = None, chunk_web = Some p\<rparr>"

definition malformedChunk :: chunk where
  "malformedChunk = \<lparr>chunk_maps = None, chunk_web = None\<rparr>"

definition withChunks :: "chunk list \<Rightarrow> response" where
  "withChunks cs =
     \<lparr>resp_text = Some ''Jour 1'',
      candidates = Some [\<lparr>groundingMetadata = Some \<lparr>gm_groundingChunks = Some cs\<rparr>\<rparr>]\<rparr>"

definition hasPayload :: "chunk \<Rightarrow> bool" where
  "hasPayload c =
     (case chunk_maps c of
        Some m \<Rightarrow> True
      | None \<Rightarrow> (case chunk_web c of Some w \<Rightarrow> True | None \<Rightarrow> False))"

text \<open>
  The reading of a decimal numeral, against which the text printed for the radius is
  checked: a digit is one of the ASCII characters 0 to 9 (codes 48 to 57), and a digit
  string denotes the number obtained by reading it from the left in base ten.
\<close>

definition isDigit :: "char \<Rightarrow> bool" where
  "isDigit c = (48 \<le> (of_char c :: nat) \<and> (of_char c :: nat) \<le> 57)"

fun decimalFrom :: "nat \<Rightarrow> string \<Rightarrow> nat" where
  "decimalFrom acc [] = acc"
| "decimalFrom acc (c # cs) = decimalFrom (10 * acc + (of_char c - 48)) cs"

definition decimalValue :: "string \<Rightarrow> nat" where
  "decimalValue ds = decimalFrom 0 ds"

section \<open>Properties\<close>

subsection \<open>Prompt\<close>

lemma numToString_nonempty: "numToString n \<noteq> []"
  by (subst numToString.simps) simp

lemma isDigit_digit: "(d::nat) < 10 \<Longrightarrow> isDigit (char_of (48 + d))"
  by (simp add: isDigit_def)

lemma numToString_digits: "list_all isDigit (numToString n)"
proof (induction n rule: numToString.induct)
  case (1 n)
  show ?case
  proof (cases "n < 10")
    case True
    then show ?thesis by (subst numToString.simps) (simp add: isDigit_digit)
  next
    case False
    have "isDigit (char_of (48 + n mod 10))" by (rule isDigit_digit) simp
    with False 1 show ?thesis by (subst numToString.simps) simp
  qed
qed

lemma decimalFrom_append:
  "decimalFrom acc (xs @ ys) = decimalFrom (decimalFrom acc xs) ys"
  by (induction xs arbitrary: acc) simp_all

lemma digit_code: "(d::nat) < 10 \<Longrightarrow> (of_char (char_of (48 + d) :: char) :: nat) = 48 + d"
  by simp

lemma decimalValue_numToString: "decimalValue (numToString n) = n"
proof (induction n rule: numToString.induct)
  case (1 n)
  show ?case
  proof (cases "n < 10")
    case True
    then show ?thesis
      by (subst numToString.simps) (simp add: decimalValue_def)
  next
    case False
    then have ih: "decimalFrom 0 (numToString (n div 10)) = n div 10"
      using 1 by (simp add: decimalValue_def)
    have d: "(of_char (char_of (48 + n mod 10) :: char) :: nat) = 48 + n mod 10"
      by (rule digit_code) simp
    have "decimalValue (numToString n)
            = decimalFrom 0 (numToString (n div 10) @ [char_of (48 + n mod 10)])"
      using False by (subst numToString.simps) (simp add: decimalValue_def)
    also have "\<dots> = 10 * (n div 10) + n mod 10"
      by (simp add: decimalFrom_append ih d)
    also have "\<dots> = n" by simp
    finally show ?thesis .
  qed
qed

lemma zero_digit_iff: "(d::nat) < 10 \<Longrightarrow> ((char_of (48 + d) :: char) = CHR ''0'') = (d = 0)"
  by (auto simp: char_of_eq_iff take_bit_eq_mod)

lemma numToString_leading: "(hd (numToString n) = CHR ''0'') = (n = 0)"
proof (induction n rule: numToString.induct)
  case (1 n)
  show ?case
  proof (cases "n < 10")
    case True
    then show ?thesis by (subst numToString.simps) (simp add: zero_digit_iff)
  next
    case False
    then have "hd (numToString n) = hd (numToString (n div 10))"
      by (subst numToString.simps) (simp add: numToString_nonempty)
    with False 1 show ?thesis by simp
  qed
qed

lemma numToString_5: "numToString 5 = ''5''"
  by code_simp

lemma numToString_30: "numToString 30 = ''30''"
  by code_simp

lemma numToString_100: "numToString 100 = ''100''"
  by code_simp

lemma sublist_middle: "sublist x (pre @ x @ post)"
  unfolding sublist_def by blast

lemma buildPrompt_destination: "sublist (destination (location st)) (buildPrompt st)"
  unfolding buildPrompt_def by (rule sublist_middle)

lemma buildPrompt_startDate: "sublist (startDate st) (buildPrompt st)"
proof -
  have "buildPrompt st = (seg0 @ destination (location st) @ seg1) @ startDate st @
      (seg2 @ endDate st @ seg3 @ numToString (radius st) @ seg4 @ startDate st @ seg5 @
       endDate st @ seg6)"
    by (simp only: buildPrompt_def append_assoc)
  then show ?thesis by (simp only: sublist_middle)
qed

lemma buildPrompt_endDate: "sublist (endDate st) (buildPrompt st)"
proof -
  have "buildPrompt st = (seg0 @ destination (location st) @ seg1 @ startDate st @ seg2) @
      endDate st @
      (seg3 @ numToString (radius st) @ seg4 @ startDate st @ seg5 @ endDate st @ seg6)"
    by (simp only: buildPrompt_def append_assoc)
  then show ?thesis by (simp only: sublist_middle)
qed

lemma buildPrompt_radius: "sublist (numToString (radius st)) (buildPrompt st)"
proof -
  have "buildPrompt st =
      (seg0 @ destination (location st) @ seg1 @ startDate st @ seg2 @ endDate st @ seg3) @
      numToString (radius st) @ (seg4 @ startDate st @ seg5 @ endDate st @ seg6)"
    by (simp only: buildPrompt_def append_assoc)
  then show ?thesis by (simp only: sublist_middle)
qed

text \<open>
  C5. The prompt built from any form state contains, as contiguous substrings, the
  destination (the text \<^verbatim>\<open>ma position actuelle\<close> when the destination is empty), the
  start date, the end date and the text printed for the radius. That text is the
  decimal numeral of the radius: it is not empty, consists of digits only, denotes the
  radius when read in base ten, and starts with the digit 0 only for the radius 0. So
  the prompts for the radii 5, 30 and 100 contain \<^verbatim>\<open>5\<close>, \<^verbatim>\<open>30\<close> and \<^verbatim>\<open>100\<close>, the
  prompt for the destination Annecy contains \<^verbatim>\<open>Annecy\<close>, and the prompt for the empty
  destination contains the placeholder text. The builder is a total function: it
  returns a string for every state.
\<close>

theorem C5_prompt_contains_inputs:
  "sublist (if location st = [] then ''ma position actuelle'' else location st)
     (buildPrompt st)
   \<and> sublist (startDate st) (buildPrompt st)
   \<and> sublist (endDate st) (buildPrompt st)
   \<and> sublist (numToString (radius st)) (buildPrompt st)
   \<and> numToString (radius st) \<noteq> []
   \<and> list_all isDigit (numToString (radius st))
   \<and> decimalValue (numToString (radius st)) = radius st
   \<and> (hd (numToString (radius st)) = CHR ''0'') = (radius st = 0)
   \<and> sublist ''5'' (buildPrompt (st\<lparr>radius := 5\<rparr>))
   \<and> sublist ''30'' (buildPrompt (st\<lparr>radius := 30\<rparr>))
   \<and> sublist ''100'' (buildPrompt (st\<lparr>radius := 100\<rparr>))
   \<and> sublist ''Annecy'' (buildPrompt (st\<lparr>location := ''Annecy''\<rparr>))
   \<and> sublist ''ma position actuelle'' (buildPrompt (st\<lparr>location := []\<rparr>))"
proof -
  have dest: "sublist (if location st = [] then ''ma position actuelle'' else location st)
     (buildPrompt st)"
    using buildPrompt_destination [of st] by (simp only: destination_def placeholder_def)
  have r5: "sublist ''5'' (buildPrompt (st\<lparr>radius := 5\<rparr>))"
    using buildPrompt_radius [of "st\<lparr>radius := 5\<rparr>"] by (simp add: numToString_5)
  have r30: "sublist ''30'' (buildPrompt (st\<lparr>radius := 30\<rparr>))"
    using buildPrompt_radius [of "st\<lparr>radius := 30\<rparr>"] by (simp add: numToString_30)
  have r100: "sublist ''100'' (buildPrompt (st\<lparr>radius := 100\<rparr>))"
    using buildPrompt_radius [of "st\<lparr>radius := 100\<rparr>"] by (simp add: numToString_100)
  have annecy: "sublist ''Annecy'' (buildPrompt (st\<lparr>location := ''Annecy''\<rparr>))"
    using buildPrompt_destination [of "st\<lparr>location := ''Annecy''\<rparr>"]
    by (simp add: destination_def)
  have here: "sublist ''ma position actuelle'' (buildPrompt (st\<lparr>location := []\<rparr>))"
    using buildPrompt_destination [of "st\<lparr>location := []\<rparr>"]
    by (simp add: destination_def placeholder_def)
  from dest buildPrompt_startDate [of st] buildPrompt_endDate [of st]
       buildPrompt_radius [of st] numToString_nonempty [of "radius st"]
       numToString_digits [of "radius st"] decimalValue_numToString [of "radius st"]
       numToString_leading [of "radius st"] r5 r30 r100 annecy here
  show ?thesis by (intro conjI)
qed

subsection \<open>Request configuration\<close>

text \<open>
  C3. The request handed to the external call carries a location bias exactly when the
  coordinates cell is filled, the bias being the stored latitude and longitude; with or
  without coordinates it asks for both grounding tools, the map one and the web search
  one.
\<close>

theorem C3_location_bias_iff_coords:
  "(latLng (buildRequest st) = None) = (userCoords st = None)
   \<and> latLng (buildRequest st)
       = map_option (\<lambda>c. \<lparr>latitude = lat c, longitude = lng c\<rparr>) (userCoords st)
   \<and> tools (buildRequest st) = [GoogleMaps, GoogleSearch]"
  by (simp add: buildRequest_def buildLatLng_def split: option.splits)

subsection \<open>Text and chunks taken from a response\<close>

text \<open>
  C10. A response whose text is present but empty publishes the fallback message, as a
  response without text does; the fallback message itself is not empty.
\<close>

theorem C10_empty_text_falls_back:
  "resultText (r\<lparr>resp_text := Some []\<rparr>) = fallback
   \<and> resultText (r\<lparr>resp_text := None\<rparr>) = fallback
   \<and> result (handleSearch_settle (Inr (r\<lparr>resp_text := Some []\<rparr>)) st) = Some fallback
   \<and> fallback \<noteq> []"
  by (simp add: resultText_def handleSearch_settle_def fallback_def)




subsection \<open>Faults\<close>



subsection \<open>Rendering of the chunks\<close>

text \<open>
  C9. A chunk that carries a place payload is rendered as the place link of that
  payload whatever its web payload is, present or absent: the web payload is not read.
\<close>

theorem C9_place_takes_priority:
  "renderChunk \<lparr>chunk_maps = Some m, chunk_web = w\<rparr> idx
     = Some \<lparr>key = idx, href = uri m, icon = MapPin, label = title m\<rparr>
   \<and> sourceLinks [\<lparr>chunk_maps = Some m, chunk_web = Some w'\<rparr>]
     = [\<lparr>key = 0, href = uri m, icon = MapPin, label = title m\<rparr>]"
  by (simp add: renderChunk_def sourceLinks_def)

lemma renderChunk_None_iff: "(renderChunk c i = None) = (\<not> hasPayload c)"
  by (simp add: renderChunk_def hasPayload_def split: option.splits)

lemma renderChunk_key: "renderChunk c i = Some a \<Longrightarrow> key a = i"
  by (auto simp: renderChunk_def split: option.splits)

lemma length_dropNulls_mapChunksFrom:
  "length (dropNulls (mapChunksFrom i cs)) = length (filter hasPayload cs)"
proof (induction cs arbitrary: i)
  case Nil
  show ?case by simp
next
  case (Cons c cs)
  show ?case
  proof (cases "renderChunk c i")
    case None
    then have "\<not> hasPayload c" using renderChunk_None_iff [of c i] by simp
    with None Cons show ?thesis by simp
  next
    case (Some a)
    then have "hasPayload c" using renderChunk_None_iff [of c i] by simp
    with Some Cons show ?thesis by simp
  qed
qed

lemma key_lower_bound:
  "a \<in> set (dropNulls (mapChunksFrom i cs)) \<Longrightarrow> i \<le> key a"
proof (induction cs arbitrary: i)
  case Nil
  then show ?case by simp
next
  case (Cons c cs)
  show ?case
  proof (cases "renderChunk c i")
    case None
    with Cons.prems have "a \<in> set (dropNulls (mapChunksFrom (Suc i) cs))" by simp
    from Cons.IH [OF this] show ?thesis by simp
  next
    case (Some b)
    with Cons.prems have "a = b \<or> a \<in> set (dropNulls (mapChunksFrom (Suc i) cs))" by simp
    then show ?thesis
    proof
      assume "a = b"
      with Some show ?thesis by (simp add: renderChunk_key)
    next
      assume "a \<in> set (dropNulls (mapChunksFrom (Suc i) cs))"
      from Cons.IH [OF this] show ?thesis by simp
    qed
  qed
qed

lemma keys_increasing:
  "sorted_wrt (<) (map key (dropNulls (mapChunksFrom i cs)))"
proof (induction cs arbitrary: i)
  case Nil
  show ?case by simp
next
  case (Cons c cs)
  show ?case
  proof (cases "renderChunk c i")
    case None
    with Cons show ?thesis by simp
  next
    case (Some b)
    have "\<forall>a \<in> set (dropNulls (mapChunksFrom (Suc i) cs)). key b < key a"
      using key_lower_bound [of _ "Suc i" cs] renderChunk_key [OF Some] by fastforce
    with Some Cons show ?thesis by simp
  qed
qed

text \<open>
  C1, as the code has it. For the chunk list made of a place chunk A, a web chunk B, a
  chunk with neither payload and a place chunk C without uri, the links on the page are
  those of A, B and C in that order, keyed by the positions 0, 1 and 3: the chunk with
  neither payload gives no link, and the chunk without uri gives a link without target.
  A chunk whose uri is the empty string gives a link with an empty target. In general
  there is one link for each chunk that has a payload, whatever its uri, and the links
  keep the order of the response (their keys increase).
\<close>

theorem C1_chunks_render_in_order:
  "sourceLinks (extractChunks (withChunks
      [placeChunk A, webChunk B, malformedChunk, placeChunk (C\<lparr>uri := None\<rparr>)]))
   = [\<lparr>key = 0, href = uri A, icon = MapPin, label = title A\<rparr>,
      \<lparr>key = 1, href = uri B, icon = Search, label = title B\<rparr>,
      \<lparr>key = 3, href = None, icon = MapPin, label = title C\<rparr>]
   \<and> sourceLinks [placeChunk (C\<lparr>uri := Some []\<rparr>)]
   = [\<lparr>key = 0, href = Some [], icon = MapPin, label = title C\<rparr>]
   \<and> length (sourceLinks cs) = length (filter hasPayload cs)
   \<and> sorted_wrt (<) (map key (sourceLinks cs))"
proof -
  have "sourceLinks (extractChunks (withChunks
      [placeChunk A, webChunk B, malformedChunk, placeChunk (C\<lparr>uri := None\<rparr>)]))
   = [\<lparr>key = 0, href = uri A, icon = MapPin, label = title A\<rparr>,
      \<lparr>key = 1, href = uri B, icon = Search, label = title B\<rparr>,
      \<lparr>key = 3, href = None, icon = MapPin, label = title C\<rparr>]"
    by (simp add: sourceLinks_def extractChunks_def withChunks_def placeChunk_def
          webChunk_def malformedChunk_def renderChunk_def eval_nat_numeral)
  moreover have "sourceLinks [placeChunk (C\<lparr>uri := Some []\<rparr>)]
   = [\<lparr>key = 0, href = Some [], icon = MapPin, label = title C\<rparr>]"
    by (simp add: sourceLinks_def placeChunk_def renderChunk_def)
  moreover have "length (sourceLinks cs) = length (filter hasPayload cs)"
    unfolding sourceLinks_def by (rule length_dropNulls_mapChunksFrom)
  moreover have "sorted_wrt (<) (map key (sourceLinks cs))"
    unfolding sourceLinks_def by (rule keys_increasing)
  ultimately show ?thesis by (intro conjI)
qed

text \<open>
  The statement of C1 as written, with exactly the links of A and B as the outcome,
  fails on such a list: the links on the page are not those two alone.
\<close>

theorem C1_counterexample:
  "sourceLinks (extractChunks (withChunks
      [placeChunk \<lparr>uri = Some ''https://maps.example/a'', title = Some ''A''\<rparr>,
       webChunk \<lparr>uri = Some ''https://example.org/b'', title = Some ''B''\<rparr>,
       malformedChunk,
       placeChunk \<lparr>uri = None, title = Some ''C''\<rparr>]))
   \<noteq> [\<lparr>key = 0, href = Some ''https://maps.example/a'', icon = MapPin, label = Some ''A''\<rparr>,
       \<lparr>key = 1, href = Some ''https://example.org/b'', icon = Search, label = Some ''B''\<rparr>]"
  by (simp add: sourceLinks_def extractChunks_def withChunks_def placeChunk_def webChunk_def
        malformedChunk_def renderChunk_def)

subsection \<open>Submissions and the single pending call\<close>

lemma pageInv_initial: "pageInv (initialPage d1 d2)"
  by (simp add: pageInv_def initialPage_def initialState_def)

lemma pageInv_submit: "pageInv p \<Longrightarrow> pageInv (submit env p)"
  by (auto simp: pageInv_def submit_def handleSearch_begin_def handleSearch_settle_def
           split: option.splits if_splits)

lemma pageInv_settle: "pageInv p \<Longrightarrow> pageInv (settle i p)"
  by (auto simp: pageInv_def settle_def handleSearch_settle_def split: sum.splits if_splits)

lemma pageInv_dispatch: "pageInv p \<Longrightarrow> pageInv (dispatch env e p)"
  by (cases e) (simp_all add: pageInv_submit pageInv_settle, simp_all add: pageInv_def)

lemma pageInv_run: "pageInv p \<Longrightarrow> pageInv (run env evs p)"
  by (induction evs arbitrary: p) (simp_all add: pageInv_dispatch)

text \<open>
  The handler itself does not read the loading flag: only the disabled button keeps a
  submission away while a call is pending.
\<close>

lemma handleSearch_begin_unguarded:
  "handleSearch_begin (st\<lparr>loading := b\<rparr>) = handleSearch_begin st"
  by (simp add: handleSearch_begin_def)

text \<open>
  C6, as the code has it. The synchronous start of the handler sets the result to null
  and the chunk list to empty and raises the loading flag, so the component returns no
  child for the new state. After any sequence of events from the initial page, as long
  as the loading flag is up the result is still null and the chunk list still empty.
  The programme that was mounted is not removed at once: it stays mounted, with its
  text and its links, while its exit animation runs.
\<close>

theorem C6_submission_clears_cells:
  "result (handleSearch_begin st) = None
   \<and> groundingChunks (handleSearch_begin st) = []
   \<and> loading (handleSearch_begin st)
   \<and> render (handleSearch_begin st) = Blank
   \<and> (loading (app (run env evs (initialPage d1 d2))) \<longrightarrow>
        result (app (run env evs (initialPage d1 d2))) = None
        \<and> groundingChunks (app (run env evs (initialPage d1 d2))) = []
        \<and> render (app (run env evs (initialPage d1 d2))) = Blank)
   \<and> mountedAfter (Programme t s) (render (handleSearch_begin st)) = Leaving t s"
proof -
  have "pageInv (run env evs (initialPage d1 d2))"
    by (rule pageInv_run) (rule pageInv_initial)
  then show ?thesis
    by (simp add: pageInv_def handleSearch_begin_def render_def mountedAfter_def
          split: if_splits)
qed

theorem C6_submission_clears_cells_witness:
  "loading (app (run (okSdk \<lparr>resp_text = Some ''Jour 1'', candidates = None\<rparr>)
                   [Submit, Settle 0, SetLocation ''Annecy'', Submit]
                   (initialPage ''2026-06-01'' ''2026-06-08'')))
   \<and> result (app (run (okSdk \<lparr>resp_text = Some ''Jour 1'', candidates = None\<rparr>)
                   [Submit, Settle 0, SetLocation ''Annecy'', Submit]
                   (initialPage ''2026-06-01'' ''2026-06-08''))) = None
   \<and> result (app (run (okSdk \<lparr>resp_text = Some ''Jour 1'', candidates = None\<rparr>)
                   [Submit, Settle 0]
                   (initialPage ''2026-06-01'' ''2026-06-08''))) = Some ''Jour 1''"
  using C6_submission_clears_cells
    [of "initialState ''2026-06-01'' ''2026-06-08''"
        "okSdk \<lparr>resp_text = Some ''Jour 1'', candidates = None\<rparr>"
        "[Submit, Settle 0, SetLocation ''Annecy'', Submit]" "''2026-06-01''" "''2026-06-08''"]
  by (simp add: okSdk_def initialPage_def initialState_def submit_def settle_def
        handleSearch_begin_def handleSearch_settle_def resultText_def)

text \<open>
  The statement of C6 as written, with nothing of the earlier search observable while
  the new one is pending, fails on a page that shows a programme with one source link:
  after the next submission the loading flag is up and that programme and its link are
  still mounted, leaving.
\<close>

theorem C6_counterexample:
  "render (handleSearch
       (okSdk (withChunks [placeChunk \<lparr>uri = Some ''https://maps.example/a'', title = Some ''A''\<rparr>]))
       (initialState ''2026-06-01'' ''2026-06-08''))
     = Programme ''Jour 1''
         (Some [\<lparr>key = 0, href = Some ''https://maps.example/a'', icon = MapPin,
                 label = Some ''A''\<rparr>])
   \<and> loading (handleSearch_begin (handleSearch
       (okSdk (withChunks [placeChunk \<lparr>uri = Some ''https://maps.example/a'', title = Some ''A''\<rparr>]))
       (initialState ''2026-06-01'' ''2026-06-08'')))
   \<and> mountedAfter
       (render (handleSearch
         (okSdk (withChunks [placeChunk \<lparr>uri = Some ''https://maps.example/a'', title = Some ''A''\<rparr>]))
         (initialState ''2026-06-01'' ''2026-06-08'')))
       (render (handleSearch_begin (handleSearch
         (okSdk (withChunks [placeChunk \<lparr>uri = Some ''https://maps.example/a'', title = Some ''A''\<rparr>]))
         (initialState ''2026-06-01'' ''2026-06-08''))))
     = Leaving ''Jour 1''
         (Some [\<lparr>key = 0, href = Some ''https://maps.example/a'', icon = MapPin,
                 label = Some ''A''\<rparr>])"
  by (simp add: handleSearch_def handleSearch_settle_def handleSearch_begin_def attempt_def
        okSdk_def withChunks_def placeChunk_def resultText_def extractChunks_def render_def
        sourceLinks_def renderChunk_def mountedAfter_def initialState_def)

text \<open>
  C7. After any sequence of events from the initial page at most one call is pending,
  and one is pending exactly while the loading flag is up. A submission while the flag
  is up is rejected: the page is unchanged and no second call starts. The next call can
  only start after the pending one has settled and lowered the flag.
\<close>

theorem C7_single_flight:
  "length (inflight (run env evs (initialPage d1 d2))) \<le> 1
   \<and> loading (app (run env evs (initialPage d1 d2)))
       = (length (inflight (run env evs (initialPage d1 d2))) = 1)
   \<and> dispatch env Submit (p\<lparr>app := (app p)\<lparr>loading := True\<rparr>\<rparr>)
       = p\<lparr>app := (app p)\<lparr>loading := True\<rparr>\<rparr>"
proof -
  have "pageInv (run env evs (initialPage d1 d2))"
    by (rule pageInv_run) (rule pageInv_initial)
  then show ?thesis
    by (simp add: pageInv_def submit_def split: if_splits)
qed

subsection \<open>The typed path\<close>

text \<open>
  C8, as the code has it. The function never yields a non-empty activity list. When
  the constructor and the call both succeed it resolves to the empty list, whatever
  the response is. It has no try block: when the constructor throws it rejects with
  the fault thrown, and when the call rejects it rejects with the fault of the call.
\<close>

theorem C8_only_empty_list:
  "searchActivities toStr env params \<noteq> Inr (a # as)
   \<and> (newGoogleGenAI env = None \<and> generateContent env (searchRequest toStr params) = Inr r
        \<longrightarrow> searchActivities toStr env params = Inr [])
   \<and> (newGoogleGenAI env = Some f \<longrightarrow> searchActivities toStr env params = Inl f)
   \<and> (newGoogleGenAI env = None \<and> generateContent env (searchRequest toStr params) = Inl f
        \<longrightarrow> searchActivities toStr env params = Inl f)"
  by (auto simp: searchActivities_def split: option.splits sum.splits)

theorem C8_only_empty_list_witness:
  "searchActivities (\<lambda>x. ''20'')
     (okSdk \<lparr>resp_text = Some ''- Marche de Annecy'', candidates = None\<rparr>)
     \<lparr>sp_location = ''Annecy'', sp_startDate = ''2026-06-01'', sp_endDate = ''2026-06-03'',
      sp_radius = 20, sp_lat = None, sp_lng = None\<rparr> = Inr []
   \<and> searchActivities (\<lambda>x. ''20'') (throwingSdk (Fault ''no key''))
     \<lparr>sp_location = ''Annecy'', sp_startDate = ''2026-06-01'', sp_endDate = ''2026-06-03'',
      sp_radius = 20, sp_lat = None, sp_lng = None\<rparr> = Inl (Fault ''no key'')
   \<and> searchActivities (\<lambda>x. ''20'') (failingSdk (Fault ''network''))
     \<lparr>sp_location = ''Annecy'', sp_startDate = ''2026-06-01'', sp_endDate = ''2026-06-03'',
      sp_radius = 20, sp_lat = None, sp_lng = None\<rparr> = Inl (Fault ''network'')"
proof -
  let ?p = "\<lparr>sp_location = ''Annecy'', sp_startDate = ''2026-06-01'',
             sp_endDate = ''2026-06-03'', sp_radius = 20, sp_lat = None, sp_lng = None\<rparr>"
  let ?r = "\<lparr>resp_text = Some ''- Marche de Annecy'', candidates = None\<rparr>"
  have ok: "newGoogleGenAI (okSdk ?r) = None
            \<and> generateContent (okSdk ?r) (searchRequest (\<lambda>x. ''20'') ?p) = Inr ?r"
    by (simp add: okSdk_def)
  have thrown: "newGoogleGenAI (throwingSdk (Fault ''no key'')) = Some (Fault ''no key'')"
    by (simp add: throwingSdk_def)
  have rejected: "newGoogleGenAI (failingSdk (Fault ''network'')) = None
            \<and> generateContent (failingSdk (Fault ''network'')) (searchRequest (\<lambda>x. ''20'') ?p)
                = Inl (Fault ''network'')"
    by (simp add: failingSdk_def)
  from C8_only_empty_list [of "\<lambda>x. ''20''" "okSdk ?r" ?p _ _ ?r] ok
  have 1: "searchActivities (\<lambda>x. ''20'') (okSdk ?r) ?p = Inr []" by blast
  from C8_only_empty_list
         [of "\<lambda>x. ''20''" "throwingSdk (Fault ''no key'')" ?p _ _ _ "Fault ''no key''"] thrown
  have 2: "searchActivities (\<lambda>x. ''20'') (throwingSdk (Fault ''no key'')) ?p
             = Inl (Fault ''no key'')" by blast
  from C8_only_empty_list
         [of "\<lambda>x. ''20''" "failingSdk (Fault ''network'')" ?p _ _ _ "Fault ''network''"] rejected
  have 3: "searchActivities (\<lambda>x. ''20'') (failingSdk (Fault ''network'')) ?p
             = Inl (Fault ''network'')" by blast
  from 1 2 3 show ?thesis by (intro conjI)
qed

text \<open>
  The statement of C8 as written, resolving to the empty list for every input, fails
  when the call rejects: the function rejects with the fault of the call.
\<close>

theorem C8_counterexample:
  "searchActivities (\<lambda>x. ''20'') (failingSdk (Fault ''quota''))
     \<lparr>sp_location = ''Annecy'', sp_startDate = ''2026-06-01'', sp_endDate = ''2026-06-03'',
      sp_radius = 20, sp_lat = None, sp_lng = None\<rparr>
   = Inl (Fault ''quota'')"
  by (simp add: searchActivities_def failingSdk_def)

end
